theory Spec2Isabelle
  imports Main "HOL-Library.Word"
begin

unbundle bit_operations_syntax

section \<open>JavaScript values\<close>

text \<open>
  Strings are modelled by their UTF-8 bytes (\<open>string\<close> is a list of 8-bit characters):
  this is what \<open>crypto.update\<close> hashes, and emptiness, concatenation and an ASCII
  prefix test agree with the JavaScript string operations on well-formed text.
  A number is an integral double in the safe range, or \<open>NaN\<close>; a fractional number
  behaves like a non-zero integer wherever the client looks at it (only its truthiness).
\<close>

datatype jsnum = Num int | NaN

datatype jsval =
    Undefined
  | Null
  | Bool bool
  | Number jsnum
  | Str string
  | Obj "(string \<times> jsval) list"
  | Arr "jsval list"

text \<open>JavaScript truthiness: what \<open>!x\<close> and \<open>x || y\<close> test.\<close>

fun truthy_num :: "jsnum \<Rightarrow> bool" where
  "truthy_num (Num n) = (n \<noteq> 0)"
| "truthy_num NaN = False"

fun truthy :: "jsval \<Rightarrow> bool" where
  "truthy Undefined = False"
| "truthy Null = False"
| "truthy (Bool b) = b"
| "truthy (Number n) = truthy_num n"
| "truthy (Str s) = (s \<noteq> [])"
| "truthy (Obj _) = True"
| "truthy (Arr _) = True"

text \<open>
  An optional string (\<open>string | undefined\<close>) is truthy when it is there and not empty.
  \<open>or_str a b\<close> is \<open>a || b\<close> on two optional strings, \<open>or_default a d\<close> is
  \<open>a || d\<close> where \<open>d\<close> is a string, and \<open>or_num a d\<close> is \<open>a || d\<close> on an
  optional number.
\<close>

fun truthy_str :: "string option \<Rightarrow> bool" where
  "truthy_str None = False"
| "truthy_str (Some s) = (s \<noteq> [])"

definition or_str :: "string option \<Rightarrow> string option \<Rightarrow> string option" where
  "or_str a b = (if truthy_str a then a else b)"

fun or_default :: "string option \<Rightarrow> string \<Rightarrow> string" where
  "or_default None d = d"
| "or_default (Some s) d = (if s \<noteq> [] then s else d)"

fun or_num :: "jsnum option \<Rightarrow> jsnum \<Rightarrow> jsnum" where
  "or_num None d = d"
| "or_num (Some n) d = (if truthy_num n then n else d)"

section \<open>Node's crypto module: SHA-256 and HMAC\<close>

text \<open>
  The digests come from Node's \<open>crypto\<close>, which is not part of the repository. They are
  modelled after FIPS 180-4 (SHA-256) and RFC 2104 (HMAC) on byte lists.
\<close>

type_synonym byte = "8 word"
type_synonym w32 = "32 word"
type_synonym sha_state = "w32 \<times> w32 \<times> w32 \<times> w32 \<times> w32 \<times> w32 \<times> w32 \<times> w32"

definition utf8 :: "string \<Rightarrow> byte list" where
  "utf8 s = map of_char s"

definition Ch :: "w32 \<Rightarrow> w32 \<Rightarrow> w32 \<Rightarrow> w32" where
  "Ch x y z = (x AND y) XOR (NOT x AND z)"

definition Maj :: "w32 \<Rightarrow> w32 \<Rightarrow> w32 \<Rightarrow> w32" where
  "Maj x y z = (x AND y) XOR (x AND z) XOR (y AND z)"

definition bsig0 :: "w32 \<Rightarrow> w32" where
  "bsig0 x = word_rotr 2 x XOR word_rotr 13 x XOR word_rotr 22 x"

definition bsig1 :: "w32 \<Rightarrow> w32" where
  "bsig1 x = word_rotr 6 x XOR word_rotr 11 x XOR word_rotr 25 x"

definition ssig0 :: "w32 \<Rightarrow> w32" where
  "ssig0 x = word_rotr 7 x XOR word_rotr 18 x XOR drop_bit 3 x"

definition ssig1 :: "w32 \<Rightarrow> w32" where
  "ssig1 x = word_rotr 17 x XOR word_rotr 19 x XOR drop_bit 10 x"

text \<open>The round constants, eight rounds to a row.\<close>

definition K256 :: "w32 list" where
  "K256 = concat
    [[0x428a2f98, 0x71374491, 0xb5c0fbcf, 0xe9b5dba5, 0x3956c25b, 0x59f111f1, 0x923f82a4, 0xab1c5ed5],
     [0xd807aa98, 0x12835b01, 0x243185be, 0x550c7dc3, 0x72be5d74, 0x80deb1fe, 0x9bdc06a7, 0xc19bf174],
     [0xe49b69c1, 0xefbe4786, 0x0fc19dc6, 0x240ca1cc, 0x2de92c6f, 0x4a7484aa, 0x5cb0a9dc, 0x76f988da],
     [0x983e5152, 0xa831c66d, 0xb00327c8, 0xbf597fc7, 0xc6e00bf3, 0xd5a79147, 0x06ca6351, 0x14292967],
     [0x27b70a85, 0x2e1b2138, 0x4d2c6dfc, 0x53380d13, 0x650a7354, 0x766a0abb, 0x81c2c92e, 0x92722c85],
     [0xa2bfe8a1, 0xa81a664b, 0xc24b8b70, 0xc76c51a3, 0xd192e819, 0xd6990624, 0xf40e3585, 0x106aa070],
     [0x19a4c116, 0x1e376c08, 0x2748774c, 0x34b0bcb5, 0x391c0cb3, 0x4ed8aa4a, 0x5b9cca4f, 0x682e6ff3],
     [0x748f82ee, 0x78a5636f, 0x84c87814, 0x8cc70208, 0x90befffa, 0xa4506ceb, 0xbef9a3f7, 0xc67178f2]]"

definition H256 :: sha_state where
  "H256 = (0x6a09e667, 0xbb67ae85, 0x3c6ef372, 0xa54ff53a,
           0x510e527f, 0x9b05688c, 0x1f83d9ab, 0x5be0cd19)"

text \<open>The message length in bits, as eight bytes, most significant first.\<close>

definition be64 :: "nat \<Rightarrow> byte list" where
  "be64 n = map (\<lambda>i. of_nat (n div 2 ^ (8 * (7 - i)))) [0..<8]"

text \<open>Padding: the byte 0x80, zeros up to 56 modulo 64, then the length.\<close>

definition sha256_pad :: "byte list \<Rightarrow> byte list" where
  "sha256_pad m =
     m @ [0x80] @ replicate ((119 - length m mod 64) mod 64) 0 @ be64 (8 * length m)"

fun be32 :: "byte list \<Rightarrow> w32" where
  "be32 (b0 # b1 # b2 # b3 # _) =
     push_bit 24 (ucast b0) OR push_bit 16 (ucast b1) OR push_bit 8 (ucast b2) OR ucast b3"
| "be32 _ = 0"

text \<open>\<open>chunks k n xs\<close>: the first \<open>k\<close> consecutive pieces of \<open>xs\<close>, \<open>n\<close> elements each.\<close>

fun chunks :: "nat \<Rightarrow> nat \<Rightarrow> 'a list \<Rightarrow> 'a list list" where
  "chunks 0 n xs = []"
| "chunks (Suc k) n xs = take n xs # chunks k n (drop n xs)"

definition block_words :: "byte list \<Rightarrow> w32 list" where
  "block_words b = map be32 (chunks 16 4 b)"

text \<open>The message schedule: \<open>schedule 48\<close> extends the 16 words of a block to 64.\<close>

fun schedule :: "nat \<Rightarrow> w32 list \<Rightarrow> w32 list" where
  "schedule 0 ws = ws"
| "schedule (Suc k) ws =
     (let t = length ws
      in schedule k
           (ws @ [ssig1 (ws ! (t - 2)) + ws ! (t - 7) + ssig0 (ws ! (t - 15)) + ws ! (t - 16)]))"

definition sha_round :: "sha_state \<Rightarrow> w32 \<times> w32 \<Rightarrow> sha_state" where
  "sha_round s kw =
     (case s of (a, b, c, d, e, f, g, h) \<Rightarrow> case kw of (k, w) \<Rightarrow>
      let t1 = h + bsig1 e + Ch e f g + k + w;
          t2 = bsig0 a + Maj a b c
      in (t1 + t2, a, b, c, d + t1, e, f, g))"

definition add_state :: "sha_state \<Rightarrow> sha_state \<Rightarrow> sha_state" where
  "add_state s s' =
     (case s of (a, b, c, d, e, f, g, h) \<Rightarrow> case s' of (a', b', c', d', e', f', g', h') \<Rightarrow>
      (a + a', b + b', c + c', d + d', e + e', f + f', g + g', h + h'))"

definition compress :: "sha_state \<Rightarrow> byte list \<Rightarrow> sha_state" where
  "compress H b = add_state H (foldl sha_round H (zip K256 (schedule 48 (block_words b))))"

definition word_bytes :: "w32 \<Rightarrow> byte list" where
  "word_bytes w = [ucast (drop_bit 24 w), ucast (drop_bit 16 w), ucast (drop_bit 8 w), ucast w]"

definition state_bytes :: "sha_state \<Rightarrow> byte list" where
  "state_bytes s =
     (case s of (a, b, c, d, e, f, g, h) \<Rightarrow> concat (map word_bytes [a, b, c, d, e, f, g, h]))"

definition sha256 :: "byte list \<Rightarrow> byte list" where
  "sha256 m =
     (let p = sha256_pad m
      in state_bytes (foldl compress H256 (chunks (length p div 64) 64 p)))"

definition hmac_sha256 :: "byte list \<Rightarrow> byte list \<Rightarrow> byte list" where
  "hmac_sha256 key m =
     (let k0 = (if length key > 64 then sha256 key else key);
          k = k0 @ replicate (64 - length k0) 0
      in sha256 (map (\<lambda>b. b XOR 0x5c) k @ sha256 (map (\<lambda>b. b XOR 0x36) k @ m)))"

definition hex_digit :: "nat \<Rightarrow> char" where
  "hex_digit n = ''0123456789abcdef'' ! (n mod 16)"

definition hex :: "byte list \<Rightarrow> string" where
  "hex bs = concat (map (\<lambda>b. [hex_digit (unat b div 16), hex_digit (unat b mod 16)]) bs)"

text \<open>
  The part of the \<open>crypto\<close> interface the client uses: \<open>createHash('sha256')\<close> and
  \<open>createHmac('sha256', key)\<close> make an object that collects the data given to
  \<open>update\<close>; \<open>digest('hex')\<close> hashes what was collected.
\<close>

datatype hasher = Hash "byte list" | Hmac "byte list" "byte list"

definition createHash_sha256 :: hasher where
  "createHash_sha256 = Hash []"

definition createHmac_sha256 :: "string \<Rightarrow> hasher" where
  "createHmac_sha256 key = Hmac (utf8 key) []"

fun update :: "hasher \<Rightarrow> string \<Rightarrow> hasher" where
  "update (Hash d) s = Hash (d @ utf8 s)"
| "update (Hmac k d) s = Hmac k (d @ utf8 s)"

fun digest_hex :: "hasher \<Rightarrow> string" where
  "digest_hex (Hash d) = hex (sha256 d)"
| "digest_hex (Hmac k d) = hex (hmac_sha256 k d)"

section \<open>The data model of the SDK\<close>

text \<open>
  The interfaces of the source, one record each. A field name that two interfaces share
  carries a prefix in all but one of them: \<open>cfg_apiKey\<close> and \<open>cfg_secret\<close> of the
  configuration, \<open>o_challenge\<close> and \<open>o_response\<close> of the validation options,
  \<open>q_quota\<close> inside the quota. An optional field is an \<open>option\<close>.
\<close>

record KeyClaimConfig =
  cfg_apiKey :: string
  cfg_secret :: "string option"

record CreateChallengeOptions =
  ttl :: "jsnum option"

record CreateChallengeResponse =
  challenge :: string
  expires_in :: jsnum
  encrypted :: "bool option"

record ValidateChallengeOptions =
  o_challenge :: string
  o_response :: string
  decryptedChallenge :: "string option"

datatype quota_limit = Limit jsnum | Unlimited

record quota_info =
  used :: jsnum
  remaining :: jsnum
  q_quota :: quota_limit

record ValidateChallengeResponse =
  valid :: bool
  signature :: "string option"
  quota :: "quota_info option"
  error :: "string option"

text \<open>\<open>KeyClaimError\<close>: the one error class of the SDK.\<close>

record KeyClaimError =
  message :: string
  code :: "string option"
  statusCode :: "int option"

definition new_KeyClaimError :: "string \<Rightarrow> string option \<Rightarrow> int option \<Rightarrow> KeyClaimError" where
  "new_KeyClaimError m c s = \<lparr>message = m, code = c, statusCode = s\<rparr>"

section \<open>The transport\<close>

text \<open>
  What a rejected \<open>post\<close> carries, as the client reads it through \<open>AxiosError\<close>: an
  optional server response (status and body), an optional request object, an optional
  message. The body (\<open>response.data\<close>) is absent (\<open>None\<close>: undefined or null), or an
  object, or not an object: a text such as the HTML page of a gateway, a number, a
  boolean. An object has the fields the client looks at; \<open>p_valid\<close> is \<open>None\<close> when
  it has no \<open>valid\<close> key (so an array is an object with none of the fields).
\<close>

record payload =
  p_error :: "string option"
  p_message :: "string option"
  p_valid :: "bool option"

datatype response_data =
    ObjectData payload
  | TextData string
  | NumberData jsnum
  | BoolData bool

fun truthy_data :: "response_data \<Rightarrow> bool" where
  "truthy_data (ObjectData p) = True"
| "truthy_data (TextData s) = (s \<noteq> [])"
| "truthy_data (NumberData n) = truthy_num n"
| "truthy_data (BoolData b) = b"

record AxiosResponse =
  status :: int
  data :: "response_data option"

record AxiosError =
  response :: "AxiosResponse option"
  request :: "unit option"
  ax_message :: "string option"

record AxiosConfig =
  baseURL :: string
  headers :: "(string \<times> string) list"
  timeout :: nat

datatype body =
    CreateBody jsnum
  | ValidateBody string string "string option"

record request_log =
  via :: AxiosConfig
  url :: string
  sent :: body

text \<open>
  The remote service and the axios module: how the two endpoints answer (given the calls
  made so far and the present one), the instances \<open>axios.create\<close> has made, and the
  requests posted, in order. An answer \<open>Inr d\<close> is a resolved \<open>post\<close> with
  \<open>response.data = d\<close>; an answer \<open>Inl e\<close> is a rejected one. The host is here too,
  for the one thing the client can make it say: \<open>in_operator_message e\<close> is the message
  of the \<open>TypeError\<close> it raises when \<open>'valid' in e.response.data\<close> is asked of a body
  that is not an object.
\<close>

record network =
  serve_create :: "request_log list \<Rightarrow> request_log \<Rightarrow> AxiosError + CreateChallengeResponse"
  serve_validate :: "request_log list \<Rightarrow> request_log \<Rightarrow> AxiosError + ValidateChallengeResponse"
  in_operator_message :: "AxiosError \<Rightarrow> string"
  created :: "AxiosConfig list"
  calls :: "request_log list"

definition axios_create :: "AxiosConfig \<Rightarrow> network \<Rightarrow> AxiosConfig \<times> network" where
  "axios_create cfg net = (cfg, net\<lparr>created := created net @ [cfg]\<rparr>)"

definition post ::
  "(request_log list \<Rightarrow> request_log \<Rightarrow> 'a) \<Rightarrow> AxiosConfig \<Rightarrow> string \<Rightarrow> body \<Rightarrow> network \<Rightarrow> 'a \<times> network"
where
  "post endpoint inst path b net =
     (let r = \<lparr>via = inst, url = path, sent = b\<rparr>
      in (endpoint (calls net) r, net\<lparr>calls := calls net @ [r]\<rparr>))"

section \<open>KeyClaimClient\<close>

record KeyClaimClient =
  apiKey :: string
  baseUrl :: string
  secret :: string
  axiosInstance :: AxiosConfig

text \<open>The default base URL; the source holds it in base64.\<close>

definition defaultBaseUrl :: string where
  "defaultBaseUrl = ''https://keyclaim.org''"

datatype config_arg = ConfigObject KeyClaimConfig | ApiKeyString string

definition startsWith :: "string \<Rightarrow> string \<Rightarrow> bool" where
  "startsWith s p = (take (length p) s = p)"

definition invalid_api_key_message :: string where
  \<open>invalid_api_key_message = ''Invalid API key format. API key must start with "kc_"''\<close>

text \<open>
  The constructor. \<open>secret || config\<close> takes the API key when the secret is absent or
  empty. The key is checked before \<open>axios.create\<close> is called.
\<close>

definition new_KeyClaimClient ::
  "config_arg \<Rightarrow> string option \<Rightarrow> network \<Rightarrow> (KeyClaimError + KeyClaimClient) \<times> network"
where
  "new_KeyClaimClient config secret_arg net =
     (let (key, sec) =
            (case config of
               ApiKeyString s \<Rightarrow> (s, or_default secret_arg s)
             | ConfigObject c \<Rightarrow> (cfg_apiKey c, or_default (cfg_secret c) (cfg_apiKey c)))
      in if key = [] \<or> \<not> startsWith key ''kc_''
         then (Inl (new_KeyClaimError invalid_api_key_message None None), net)
         else
           (let (inst, net') =
                  axios_create
                    \<lparr>baseURL = defaultBaseUrl @ ''/api'',
                     headers = [(''Content-Type'', ''application/json''),
                                (''Authorization'', ''Bearer '' @ key)],
                     timeout = 30000\<rparr> net
            in (Inr \<lparr>apiKey = key, baseUrl = defaultBaseUrl, secret = sec,
                     axiosInstance = inst\<rparr>, net')))"

definition createClient ::
  "config_arg \<Rightarrow> string option \<Rightarrow> network \<Rightarrow> (KeyClaimError + KeyClaimClient) \<times> network"
where
  "createClient config secret_arg net = new_KeyClaimClient config secret_arg net"

text \<open>Default parameters: an omitted argument (\<open>None\<close>) takes the default.\<close>

definition method_default :: "string option \<Rightarrow> string" where
  "method_default method_arg = (case method_arg of None \<Rightarrow> ''hmac'' | Some m \<Rightarrow> m)"

definition ttl_default :: "jsnum option \<Rightarrow> jsnum" where
  "ttl_default ttl_arg = (case ttl_arg of None \<Rightarrow> Num 30 | Some t \<Rightarrow> t)"

subsection \<open>handleError\<close>

text \<open>
  What the SDK itself can throw: a \<open>KeyClaimError\<close>, or the \<open>TypeError\<close> of the
  host. What a \<open>catch\<close> block can hold: the rejection of a \<open>post\<close>, or one of those
  two. \<open>handleError\<close> reads \<open>response\<close>, \<open>request\<close> and \<open>message\<close> of whatever it
  is given; a \<open>KeyClaimError\<close> and a \<open>TypeError\<close> have a message and neither of the
  other two.
\<close>

datatype exception = KeyClaim KeyClaimError | TypeError string

datatype thrown = Rejection AxiosError | Raised exception

fun response_of :: "thrown \<Rightarrow> AxiosResponse option" where
  "response_of (Rejection e) = response e"
| "response_of (Raised x) = None"

fun request_of :: "thrown \<Rightarrow> unit option" where
  "request_of (Rejection e) = request e"
| "request_of (Raised x) = None"

fun message_of :: "thrown \<Rightarrow> string option" where
  "message_of (Rejection e) = ax_message e"
| "message_of (Raised (KeyClaim k)) = Some (message k)"
| "message_of (Raised (TypeError m)) = Some m"

text \<open>
  \<open>errorData?.error\<close> and \<open>errorData?.message\<close>: a property of a body that is not
  an object is undefined.
\<close>

fun opt_error :: "response_data option \<Rightarrow> string option" where
  "opt_error (Some (ObjectData p)) = p_error p"
| "opt_error _ = None"

fun opt_message :: "response_data option \<Rightarrow> string option" where
  "opt_message (Some (ObjectData p)) = p_message p"
| "opt_message _ = None"

definition handleError :: "thrown \<Rightarrow> string \<Rightarrow> KeyClaimError" where
  "handleError err defaultMessage =
     (case response_of err of
        Some resp \<Rightarrow>
          (let statusCode = status resp;
               errorData = data resp;
               errorMessage =
                 or_str (or_str (opt_error errorData) (opt_message errorData)) (message_of err)
           in new_KeyClaimError (or_default errorMessage defaultMessage)
                (opt_error errorData) (Some statusCode))
      | None \<Rightarrow>
          (case request_of err of
             Some _ \<Rightarrow>
               new_KeyClaimError ''Network error: No response received from server''
                 (Some ''network_error'') None
           | None \<Rightarrow>
               new_KeyClaimError (or_default (message_of err) defaultMessage)
                 (Some ''unknown_error'') None))"

subsection \<open>createChallenge\<close>

definition createChallenge ::
  "KeyClaimClient \<Rightarrow> CreateChallengeOptions \<Rightarrow> network
   \<Rightarrow> (KeyClaimError + CreateChallengeResponse) \<times> network"
where
  "createChallenge this options net =
     (case post (serve_create net) (axiosInstance this) ''/challenge/create''
             (CreateBody (or_num (ttl options) (Num 30))) net of
        (Inr d, net') \<Rightarrow> (Inr d, net')
      | (Inl err, net') \<Rightarrow>
          (Inl (handleError (Rejection err) ''Failed to create challenge''), net'))"

subsection \<open>generateResponse\<close>

text \<open>
  \<open>JSON.stringify\<close> belongs to the host and is a parameter, \<open>stringify\<close>. The method
  is a string (the default branch of the \<open>switch\<close> is reachable).
\<close>

definition generateResponse ::
  "(jsval \<Rightarrow> string) \<Rightarrow> KeyClaimClient \<Rightarrow> string \<Rightarrow> string option \<Rightarrow> jsval
   \<Rightarrow> KeyClaimError + string"
where
  "generateResponse stringify this chal method_arg customData =
     (let method = method_default method_arg
      in if method = ''echo'' then Inr chal
         else if method = ''hmac'' then
           Inr (digest_hex (update (createHmac_sha256 (secret this)) chal))
         else if method = ''hash'' then
           Inr (digest_hex (update createHash_sha256 (chal @ secret this)))
         else if method = ''custom'' then
           (if \<not> truthy customData
            then Inl (new_KeyClaimError ''Custom data is required for custom method'' None None)
            else
              (let d = (case customData of
                          Str s \<Rightarrow> chal @ '':'' @ s
                        | _ \<Rightarrow> chal @ '':'' @ stringify customData)
               in Inr (digest_hex (update createHash_sha256 d))))
         else Inl (new_KeyClaimError (''Unknown response method: '' @ method) None None))"

subsection \<open>validateChallenge\<close>

text \<open>\<open>axiosError.response?.data\<close>.\<close>

definition rejected_data :: "AxiosError \<Rightarrow> response_data option" where
  "rejected_data e = (case response e of None \<Rightarrow> None | Some r \<Rightarrow> data r)"

text \<open>
  \<open>axiosError.response?.data && 'valid' in axiosError.response.data\<close>. A missing or
  falsy body stops at \<open>&&\<close>; an object is asked for the key; of anything else that is
  truthy (a non-empty text, a non-zero number, \<open>true\<close>) the \<open>in\<close> operator throws
  a \<open>TypeError\<close>, which is the result \<open>None\<close>.
\<close>

fun valid_in :: "response_data option \<Rightarrow> bool option" where
  "valid_in None = Some False"
| "valid_in (Some (ObjectData p)) = Some (p_valid p \<noteq> None)"
| "valid_in (Some d) = (if truthy_data d then None else Some False)"

definition has_valid :: "AxiosError \<Rightarrow> bool option" where
  "has_valid e = valid_in (rejected_data e)"

text \<open>
  The \<open>TypeError\<close> is thrown inside the \<open>catch\<close> block, so it leaves
  \<open>validateChallenge\<close> as it is.
\<close>

definition validateChallenge ::
  "KeyClaimClient \<Rightarrow> ValidateChallengeOptions \<Rightarrow> network
   \<Rightarrow> (exception + ValidateChallengeResponse) \<times> network"
where
  "validateChallenge this options net =
     (case post (serve_validate net) (axiosInstance this) ''/challenge/validate''
             (ValidateBody (o_challenge options) (o_response options)
                (decryptedChallenge options)) net of
        (Inr d, net') \<Rightarrow> (Inr d, net')
      | (Inl err, net') \<Rightarrow>
          (case has_valid err of
             None \<Rightarrow> (Inl (TypeError (in_operator_message net err)), net')
           | Some True \<Rightarrow>
               (Inr \<lparr>valid = False, signature = None, quota = None,
                      error = Some (or_default (opt_error (rejected_data err))
                                      ''Validation failed'')\<rparr>, net')
           | Some False \<Rightarrow>
               (Inl (KeyClaim (handleError (Rejection err) ''Failed to validate challenge'')),
                net')))"

subsection \<open>validate\<close>

text \<open>
  The body of the \<open>try\<close> block, then the \<open>catch\<close>: whatever one of the three
  steps throws goes through \<open>handleError\<close> again.
\<close>

definition validate_try ::
  "(jsval \<Rightarrow> string) \<Rightarrow> KeyClaimClient \<Rightarrow> string \<Rightarrow> jsnum \<Rightarrow> jsval \<Rightarrow> network
   \<Rightarrow> (exception + ValidateChallengeResponse) \<times> network"
where
  "validate_try stringify this method ttl_v customData net =
     (case createChallenge this \<lparr>ttl = Some ttl_v\<rparr> net of
        (Inl e, net1) \<Rightarrow> (Inl (KeyClaim e), net1)
      | (Inr created_challenge, net1) \<Rightarrow>
          (case generateResponse stringify this (challenge created_challenge)
                  (Some method) customData of
             Inl e \<Rightarrow> (Inl (KeyClaim e), net1)
           | Inr resp \<Rightarrow>
               validateChallenge this
                 \<lparr>o_challenge = challenge created_challenge, o_response = resp,
                  decryptedChallenge = None\<rparr> net1))"

definition validate ::
  "(jsval \<Rightarrow> string) \<Rightarrow> KeyClaimClient \<Rightarrow> string option \<Rightarrow> jsnum option \<Rightarrow> jsval \<Rightarrow> network
   \<Rightarrow> (KeyClaimError + ValidateChallengeResponse) \<times> network"
where
  "validate stringify this method_arg ttl_arg customData net =
     (let method = method_default method_arg;
          ttl_v = ttl_default ttl_arg
      in case validate_try stringify this method ttl_v customData net of
           (Inl e, net') \<Rightarrow> (Inl (handleError (Raised e) ''Validation flow failed''), net')
         | (Inr outcome, net') \<Rightarrow> (Inr outcome, net'))"

section \<open>Notions used to state the properties\<close>

text \<open>The two requests the client posts.\<close>

definition create_request :: "KeyClaimClient \<Rightarrow> jsnum \<Rightarrow> request_log" where
  "create_request this t =
     \<lparr>via = axiosInstance this, url = ''/challenge/create'', sent = CreateBody t\<rparr>"

definition validate_request :: "KeyClaimClient \<Rightarrow> ValidateChallengeOptions \<Rightarrow> request_log" where
  "validate_request this options =
     \<lparr>via = axiosInstance this, url = ''/challenge/validate'',
      sent = ValidateBody (o_challenge options) (o_response options)
               (decryptedChallenge options)\<rparr>"

text \<open>
  Two readings of "the first of these, else the default": \<open>first_present\<close> takes the
  first string that is there (the \<open>??\<close> of the specification), \<open>first_nonempty\<close> the
  first that is there and not empty.
\<close>

fun first_present :: "string option list \<Rightarrow> string \<Rightarrow> string" where
  "first_present [] d = d"
| "first_present (None # xs) d = first_present xs d"
| "first_present (Some s # xs) d = s"

fun first_nonempty :: "string option list \<Rightarrow> string \<Rightarrow> string" where
  "first_nonempty [] d = d"
| "first_nonempty (None # xs) d = first_nonempty xs d"
| "first_nonempty (Some s # xs) d = (if s \<noteq> [] then s else first_nonempty xs d)"

text \<open>
  The three tiers of the error classification as the specification words them, with the
  choice of the message left to \<open>pick\<close>.
\<close>

definition three_tiers ::
  "(string option list \<Rightarrow> string \<Rightarrow> string) \<Rightarrow> thrown \<Rightarrow> string \<Rightarrow> KeyClaimError"
where
  "three_tiers pick err d =
     (case response_of err of
        Some r \<Rightarrow>
          \<lparr>message = pick [opt_error (data r), opt_message (data r), message_of err] d,
           code = opt_error (data r),
           statusCode = Some (status r)\<rparr>
      | None \<Rightarrow>
          (case request_of err of
             Some u \<Rightarrow>
               \<lparr>message = ''Network error: No response received from server'',
                code = Some ''network_error'', statusCode = None\<rparr>
           | None \<Rightarrow>
               \<lparr>message = pick [message_of err] d,
                code = Some ''unknown_error'', statusCode = None\<rparr>))"

definition hex_chars :: "char set" where
  "hex_chars = set ''0123456789abcdef''"

subsection \<open>Fixtures, after the test suite of the SDK\<close>

definition test_client :: KeyClaimClient where
  "test_client =
     \<lparr>apiKey = ''kc_test'', baseUrl = defaultBaseUrl, secret = ''test-secret-key'',
      axiosInstance = \<lparr>baseURL = defaultBaseUrl @ ''/api'',
                       headers = [(''Content-Type'', ''application/json''),
                                  (''Authorization'', ''Bearer kc_test'')],
                       timeout = 30000\<rparr>\<rparr>"

definition other_client :: KeyClaimClient where
  "other_client = test_client\<lparr>apiKey := ''kc_other''\<rparr>"

definition stringify_stub :: "jsval \<Rightarrow> string" where
  "stringify_stub v = ''{}''"

definition http_failure :: "int \<Rightarrow> payload \<Rightarrow> AxiosError" where
  "http_failure st p =
     \<lparr>response = Some \<lparr>status = st, data = Some (ObjectData p)\<rparr>, request = None,
      ax_message = None\<rparr>"

definition bad_gateway :: AxiosError where
  "bad_gateway =
     \<lparr>response = Some \<lparr>status = 502, data = Some (TextData ''<html>Bad Gateway</html>'')\<rparr>,
      request = Some (), ax_message = Some ''Request failed with status code 502''\<rparr>"

definition server_error :: AxiosError where
  "server_error =
     http_failure 500 \<lparr>p_error = Some ''Server error'', p_message = None, p_valid = None\<rparr>"

definition network_timeout :: AxiosError where
  "network_timeout = \<lparr>response = None, request = Some (), ax_message = Some ''Network timeout''\<rparr>"

definition invalid_response :: payload where
  "invalid_response =
     \<lparr>p_error = Some ''Invalid response'', p_message = None, p_valid = Some False\<rparr>"

definition empty_error_body :: payload where
  "empty_error_body = \<lparr>p_error = Some '''', p_message = None, p_valid = Some False\<rparr>"

definition bad_request_body :: payload where
  "bad_request_body = \<lparr>p_error = Some '''', p_message = Some ''Bad request'', p_valid = None\<rparr>"

definition test_challenge :: CreateChallengeResponse where
  "test_challenge = \<lparr>challenge = ''test-challenge-123'', expires_in = Num 30, encrypted = None\<rparr>"

definition test_outcome :: ValidateChallengeResponse where
  "test_outcome =
     \<lparr>valid = True, signature = Some ''test-signature'',
      quota = Some \<lparr>used = Num 5, remaining = Num 95, q_quota = Limit (Num 100)\<rparr>,
      error = None\<rparr>"

definition test_options :: ValidateChallengeOptions where
  "test_options =
     \<lparr>o_challenge = ''test-challenge'', o_response = ''test-response'',
      decryptedChallenge = None\<rparr>"

text \<open>A service that gives the same two answers whatever it is asked.\<close>

definition mock_network ::
  "(AxiosError + CreateChallengeResponse) \<Rightarrow> (AxiosError + ValidateChallengeResponse)
   \<Rightarrow> network"
where
  "mock_network c v =
     \<lparr>serve_create = (\<lambda>h r. c), serve_validate = (\<lambda>h r. v),
      in_operator_message = (\<lambda>e. ''Cannot use the in operator on a body that is no object''),
      created = [], calls = []\<rparr>"

section \<open>Properties\<close>

subsection \<open>The operations, step by step\<close>

lemma createChallenge_eq:
  "createChallenge this options net =
     (case serve_create net (calls net) (create_request this (or_num (ttl options) (Num 30))) of
        Inr d \<Rightarrow> Inr d
      | Inl err \<Rightarrow> Inl (handleError (Rejection err) ''Failed to create challenge''),
      net\<lparr>calls := calls net @ [create_request this (or_num (ttl options) (Num 30))]\<rparr>)"
  by (simp add: createChallenge_def post_def create_request_def Let_def split: sum.splits)

lemma validateChallenge_eq:
  "validateChallenge this options net =
     (case serve_validate net (calls net) (validate_request this options) of
        Inr d \<Rightarrow> Inr d
      | Inl err \<Rightarrow>
          (case has_valid err of
             None \<Rightarrow> Inl (TypeError (in_operator_message net err))
           | Some True \<Rightarrow>
               Inr \<lparr>valid = False, signature = None, quota = None,
                     error = Some (or_default (opt_error (rejected_data err))
                                     ''Validation failed'')\<rparr>
           | Some False \<Rightarrow>
               Inl (KeyClaim (handleError (Rejection err) ''Failed to validate challenge''))),
      net\<lparr>calls := calls net @ [validate_request this options]\<rparr>)"
  by (simp add: validateChallenge_def post_def validate_request_def Let_def
        split: sum.splits option.splits bool.splits)

lemma validate_eq:
  "validate stringify this method_arg ttl_arg cd net =
     (case validate_try stringify this (method_default method_arg) (ttl_default ttl_arg) cd net of
        (Inl e, net') \<Rightarrow> (Inl (handleError (Raised e) ''Validation flow failed''), net')
      | (Inr outcome, net') \<Rightarrow> (Inr outcome, net'))"
  by (simp add: validate_def)

lemma or_default_first: "or_default a d = first_nonempty [a] d"
  by (cases a) simp_all

lemma or_default_or_str3:
  "or_default (or_str (or_str a b) c) d = first_nonempty [a, b, c] d"
  by (cases a; cases b; cases c) (simp_all add: or_str_def)

lemma handleError_tiers: "handleError err d = three_tiers first_nonempty err d"
proof (cases "response_of err")
  case None
  then show ?thesis
    by (simp add: handleError_def three_tiers_def new_KeyClaimError_def or_default_first
          split: option.splits)
next
  case (Some r)
  then show ?thesis
    by (simp add: handleError_def three_tiers_def new_KeyClaimError_def Let_def
          or_default_or_str3)
qed

text \<open>
  Whatever the SDK has thrown falls into the third tier when it goes through
  \<open>handleError\<close>: it keeps its message (if it has one) and nothing else.
\<close>

lemma handleError_Raised:
  "handleError (Raised x) d =
     \<lparr>message = or_default (message_of (Raised x)) d,
      code = Some ''unknown_error'', statusCode = None\<rparr>"
  by (simp add: handleError_def new_KeyClaimError_def)

subsection \<open>The digests\<close>

lemma length_state_bytes: "length (state_bytes s) = 32"
  by (simp add: state_bytes_def word_bytes_def split: prod.splits)

lemma length_sha256: "length (sha256 m) = 32"
  by (simp add: sha256_def Let_def length_state_bytes)

lemma length_hmac_sha256: "length (hmac_sha256 k m) = 32"
  by (simp add: hmac_sha256_def Let_def length_sha256)

lemma length_hex: "length (hex bs) = 2 * length bs"
  by (induction bs) (simp_all add: hex_def)

lemma hex_digit_in: "hex_digit n \<in> hex_chars"
proof -
  have "n mod 16 < length ''0123456789abcdef''" by simp
  then show ?thesis unfolding hex_digit_def hex_chars_def by (rule nth_mem)
qed

lemma set_hex: "set (hex bs) \<subseteq> hex_chars"
  using hex_digit_in by (auto simp: hex_def)

lemma generateResponse_hmac:
  "generateResponse stringify this chal (Some ''hmac'') cd
     = Inr (hex (hmac_sha256 (utf8 (secret this)) (utf8 chal)))"
  by (simp add: generateResponse_def method_default_def createHmac_sha256_def)

lemma generateResponse_hash:
  "generateResponse stringify this chal (Some ''hash'') cd
     = Inr (hex (sha256 (utf8 (chal @ secret this))))"
  by (simp add: generateResponse_def method_default_def createHash_sha256_def)

text \<open>
  Claim C5. For every challenge and secret, \<open>generateResponse\<close> with method \<open>hmac\<close>
  returns the hex-encoded HMAC-SHA256 of the challenge keyed by the secret, and with
  method \<open>hash\<close> the hex-encoded SHA-256 of the challenge followed by the secret. Both
  depend on the challenge and the secret only (two clients with the same secret give the
  same output, whatever else they are given), and the output is a string of 64
  hexadecimal digits.
\<close>

theorem C5_generateResponse_digests:
  assumes "secret this' = secret this"
  shows "generateResponse stringify this chal (Some ''hmac'') cd
           = Inr (hex (hmac_sha256 (utf8 (secret this)) (utf8 chal)))
       \<and> generateResponse stringify this chal (Some ''hash'') cd
           = Inr (hex (sha256 (utf8 (chal @ secret this))))
       \<and> generateResponse stringify' this' chal (Some ''hmac'') cd'
           = generateResponse stringify this chal (Some ''hmac'') cd
       \<and> generateResponse stringify' this' chal (Some ''hash'') cd'
           = generateResponse stringify this chal (Some ''hash'') cd
       \<and> length (hex (hmac_sha256 (utf8 (secret this)) (utf8 chal))) = 64
       \<and> length (hex (sha256 (utf8 (chal @ secret this)))) = 64
       \<and> set (hex (hmac_sha256 (utf8 (secret this)) (utf8 chal))) \<subseteq> hex_chars
       \<and> set (hex (sha256 (utf8 (chal @ secret this)))) \<subseteq> hex_chars"
  using assms
  by (simp add: generateResponse_hmac generateResponse_hash length_hex length_sha256
        length_hmac_sha256 set_hex)

theorem C5_generateResponse_digests_witness:
  "secret other_client = secret test_client
   \<and> generateResponse stringify_stub other_client ''test-challenge'' (Some ''hmac'') Undefined
       = generateResponse stringify_stub test_client ''test-challenge'' (Some ''hmac'') (Str ''x'')
   \<and> generateResponse stringify_stub test_client ''test-challenge'' (Some ''hash'') (Str ''x'')
       = Inr (hex (sha256 (utf8 ''test-challengetest-secret-key'')))
   \<and> length (hex (sha256 (utf8 ''test-challengetest-secret-key''))) = 64"
  using C5_generateResponse_digests [of other_client test_client stringify_stub
          "''test-challenge''" "Str ''x''" stringify_stub Undefined]
  by (simp add: test_client_def other_client_def)

subsection \<open>Local failures of generateResponse\<close>

text \<open>
  Claim C7. For every challenge, \<open>generateResponse\<close> with method \<open>custom\<close> and no
  custom data fails with the missing-custom-data error: it returns no digest.
\<close>

theorem C7_custom_without_data:
  "generateResponse stringify this chal (Some ''custom'') Undefined
     = Inl \<lparr>message = ''Custom data is required for custom method'',
            code = None, statusCode = None\<rparr>"
  by (simp add: generateResponse_def method_default_def new_KeyClaimError_def)

text \<open>
  Claim C8. For every method outside echo, hmac, hash and custom, \<open>generateResponse\<close>
  fails with the unknown-method error, whose message ends with the offending method.
\<close>

theorem C8_unknown_method:
  assumes "m \<notin> {''echo'', ''hmac'', ''hash'', ''custom''}"
  shows "generateResponse stringify this chal (Some m) cd
           = Inl \<lparr>message = ''Unknown response method: '' @ m, code = None, statusCode = None\<rparr>"
  using assms by (simp add: generateResponse_def method_default_def new_KeyClaimError_def)

theorem C8_unknown_method_witness:
  "generateResponse stringify_stub test_client ''test-challenge'' (Some ''bogus'') Undefined
     = Inl \<lparr>message = ''Unknown response method: bogus'', code = None, statusCode = None\<rparr>"
  using C8_unknown_method [of "''bogus''" stringify_stub test_client "''test-challenge''" Undefined]
  by simp

text \<open>
  Claim C10. \<open>generateResponse\<close> with method \<open>custom\<close> throws the missing-custom-data
  error for every falsy custom data, given or not (the empty string, 0, false among
  them); so a custom response that succeeds had truthy custom data.
\<close>

theorem C10_custom_falsy_data:
  "(\<not> truthy cd \<longrightarrow>
      generateResponse stringify this chal (Some ''custom'') cd
        = Inl \<lparr>message = ''Custom data is required for custom method'',
               code = None, statusCode = None\<rparr>)
   \<and> (generateResponse stringify this chal (Some ''custom'') cd = Inr r \<longrightarrow> truthy cd)
   \<and> generateResponse stringify this chal (Some ''custom'') (Str '''')
        = Inl \<lparr>message = ''Custom data is required for custom method'',
               code = None, statusCode = None\<rparr>
   \<and> generateResponse stringify this chal (Some ''custom'') (Number (Num 0))
        = Inl \<lparr>message = ''Custom data is required for custom method'',
               code = None, statusCode = None\<rparr>
   \<and> generateResponse stringify this chal (Some ''custom'') (Bool False)
        = Inl \<lparr>message = ''Custom data is required for custom method'',
               code = None, statusCode = None\<rparr>"
  by (auto simp: generateResponse_def method_default_def new_KeyClaimError_def Let_def
        split: if_splits)

theorem C10_custom_falsy_data_witness:
  "\<not> truthy Null
   \<and> generateResponse stringify_stub test_client ''test-challenge'' (Some ''custom'') Null
       = Inl \<lparr>message = ''Custom data is required for custom method'',
              code = None, statusCode = None\<rparr>
   \<and> generateResponse stringify_stub test_client ''test-challenge'' (Some ''custom'')
         (Str ''custom-string'')
       = Inr (hex (sha256 (utf8 ''test-challenge:custom-string'')))
   \<and> truthy (Str ''custom-string'')"
  using C10_custom_falsy_data [of Null stringify_stub test_client "''test-challenge''" "[]"]
    C10_custom_falsy_data [of "Str ''custom-string''" stringify_stub test_client
      "''test-challenge''" "hex (sha256 (utf8 ''test-challenge:custom-string''))"]
  by (simp add: generateResponse_def method_default_def createHash_sha256_def)

subsection \<open>Construction\<close>

lemma startsWith_iff: "startsWith s p \<longleftrightarrow> (\<exists>r. s = p @ r)"
proof
  assume "startsWith s p"
  then have "s = p @ drop (length p) s"
    by (metis startsWith_def append_take_drop_id)
  then show "\<exists>r. s = p @ r" ..
next
  assume "\<exists>r. s = p @ r"
  then show "startsWith s p" by (auto simp: startsWith_def)
qed

lemma new_KeyClaimClient_accepts:
  assumes "startsWith key ''kc_''"
  shows "new_KeyClaimClient (ApiKeyString key) s net
           = (Inr \<lparr>apiKey = key, baseUrl = defaultBaseUrl, secret = or_default s key,
                   axiosInstance =
                     \<lparr>baseURL = ''https://keyclaim.org/api'',
                      headers = [(''Content-Type'', ''application/json''),
                                 (''Authorization'', ''Bearer '' @ key)],
                      timeout = 30000\<rparr>\<rparr>,
              net\<lparr>created := created net @
                 [\<lparr>baseURL = ''https://keyclaim.org/api'',
                   headers = [(''Content-Type'', ''application/json''),
                              (''Authorization'', ''Bearer '' @ key)],
                   timeout = 30000\<rparr>]\<rparr>)"
proof -
  from assms have "key \<noteq> []" by (auto simp: startsWith_def)
  with assms show ?thesis
    by (simp add: new_KeyClaimClient_def axios_create_def defaultBaseUrl_def)
qed

text \<open>
  Claim C6. Constructing a client with an API key that is empty or does not start with
  \<open>kc_\<close> fails with the invalid-credentials error, in both construction forms (the
  credentials object, and the key string with an optional secret), before any network
  activity: no axios instance is made and no request is posted.
\<close>

theorem C6_invalid_api_key:
  assumes "key = [] \<or> \<not> startsWith key ''kc_''"
  shows "new_KeyClaimClient (ConfigObject \<lparr>cfg_apiKey = key, cfg_secret = s\<rparr>) s' net
           = (Inl \<lparr>message = invalid_api_key_message, code = None, statusCode = None\<rparr>, net)
       \<and> new_KeyClaimClient (ApiKeyString key) s' net
           = (Inl \<lparr>message = invalid_api_key_message, code = None, statusCode = None\<rparr>, net)
       \<and> createClient (ConfigObject \<lparr>cfg_apiKey = key, cfg_secret = s\<rparr>) s' net
           = (Inl \<lparr>message = invalid_api_key_message, code = None, statusCode = None\<rparr>, net)
       \<and> createClient (ApiKeyString key) s' net
           = (Inl \<lparr>message = invalid_api_key_message, code = None, statusCode = None\<rparr>, net)"
  using assms by (auto simp: createClient_def new_KeyClaimClient_def new_KeyClaimError_def)

theorem C6_invalid_api_key_witness:
  "new_KeyClaimClient (ConfigObject \<lparr>cfg_apiKey = ''invalid-key'', cfg_secret = None\<rparr>) None
       (mock_network (Inr test_challenge) (Inr test_outcome))
     = (Inl \<lparr>message = invalid_api_key_message, code = None, statusCode = None\<rparr>,
        mock_network (Inr test_challenge) (Inr test_outcome))
   \<and> new_KeyClaimClient (ApiKeyString '''') (Some ''test-secret-key'')
       (mock_network (Inr test_challenge) (Inr test_outcome))
     = (Inl \<lparr>message = invalid_api_key_message, code = None, statusCode = None\<rparr>,
        mock_network (Inr test_challenge) (Inr test_outcome))"
  using C6_invalid_api_key [of "''invalid-key''" None None
          "mock_network (Inr test_challenge) (Inr test_outcome)"]
    C6_invalid_api_key [of "''''" None "Some ''test-secret-key''"
          "mock_network (Inr test_challenge) (Inr test_outcome)"]
  by (simp add: startsWith_def)

subsection \<open>The time to live\<close>

lemma or_num_truthy: "truthy_num d \<Longrightarrow> truthy_num (or_num t d)"
  by (cases t) simp_all

lemma validate_calls:
  "\<exists>rest. calls (snd (validate stringify this m t cd net))
            = calls net @ create_request this (or_num (Some (ttl_default t)) (Num 30)) # rest
          \<and> CreateBody (Num 0) \<notin> sent ` set rest"
  by (simp add: validate_eq validate_try_def createChallenge_eq validateChallenge_eq
        validate_request_def split: sum.splits prod.splits option.splits bool.splits)

text \<open>
  Claim C9. \<open>createChallenge\<close> treats a ttl of 0, and any falsy ttl, as unset: the
  request then carries ttl 30. No request it posts, alone or within \<open>validate\<close>,
  carries ttl 0.
\<close>

theorem C9_ttl_zero_is_default:
  "calls (snd (createChallenge this \<lparr>ttl = t\<rparr> net))
      = calls net @ [create_request this (or_num t (Num 30))]
   \<and> or_num (Some (Num 0)) (Num 30) = Num 30
   \<and> or_num None (Num 30) = Num 30
   \<and> or_num (Some NaN) (Num 30) = Num 30
   \<and> or_num t (Num 30) \<noteq> Num 0
   \<and> CreateBody (Num 0)
        \<notin> sent ` set (drop (length (calls net)) (calls (snd (createChallenge this \<lparr>ttl = t\<rparr> net))))
   \<and> CreateBody (Num 0)
        \<notin> sent ` set (drop (length (calls net)) (calls (snd (validate stringify this m t cd net))))"
proof -
  have nz: "or_num u (Num 30) \<noteq> Num 0" for u
    using or_num_truthy [of "Num 30" u] by auto
  obtain rest where
    "calls (snd (validate stringify this m t cd net))
       = calls net @ create_request this (or_num (Some (ttl_default t)) (Num 30)) # rest"
    and "CreateBody (Num 0) \<notin> sent ` set rest"
    using validate_calls by blast
  then have "CreateBody (Num 0)
        \<notin> sent ` set (drop (length (calls net)) (calls (snd (validate stringify this m t cd net))))"
    using nz [of "Some (ttl_default t)"] by (simp add: create_request_def)
  then show ?thesis
    using nz [of t] by (simp add: createChallenge_eq create_request_def)
qed

subsection \<open>Error classification\<close>

text \<open>
  Claim C4, as amended. Every failed create-challenge call, and every failed
  validate-challenge call whose error body is missing, falsy, or an object without a
  \<open>valid\<close> field, is classified by three tiers in this order. With a server response:
  the message is
  the first of body.error, body.message and the transport message that is present and not
  empty, else the default message; the code is body.error (possibly absent); the status
  code is the HTTP status. Else, with a request but no response: the fixed network-error
  message, code \<open>network_error\<close>, no status code. Otherwise: the failure's own message
  if present and not empty, else the default message, code \<open>unknown_error\<close>, no status
  code.
\<close>

theorem C4_error_classification:
  "handleError err d = three_tiers first_nonempty err d
   \<and> (serve_create net (calls net) (create_request this (or_num (ttl options) (Num 30))) = Inl x
        \<longrightarrow> fst (createChallenge this options net)
              = Inl (three_tiers first_nonempty (Rejection x) ''Failed to create challenge''))
   \<and> (serve_validate net (calls net) (validate_request this voptions) = Inl x
        \<and> has_valid x = Some False
        \<longrightarrow> fst (validateChallenge this voptions net)
              = Inl (KeyClaim (three_tiers first_nonempty (Rejection x)
                                 ''Failed to validate challenge'')))"
  by (simp add: handleError_tiers createChallenge_eq validateChallenge_eq)

text \<open>
  The claim as stated takes body.error as the message whenever it is present. A body
  \<open>{error: "", message: "Bad request"}\<close> under status 400 has an error field, and the
  message is "Bad request".
\<close>

theorem C4_error_classification_counterexample:
  "p_error bad_request_body = Some ''''
   \<and> message (handleError (Rejection (http_failure 400 bad_request_body))
                ''Failed to create challenge'') = ''Bad request''
   \<and> handleError (Rejection (http_failure 400 bad_request_body)) ''Failed to create challenge''
       \<noteq> three_tiers first_present (Rejection (http_failure 400 bad_request_body))
            ''Failed to create challenge''"
  by (simp add: handleError_tiers three_tiers_def http_failure_def bad_request_body_def)

theorem C4_error_classification_witness:
  "fst (createChallenge test_client \<lparr>ttl = None\<rparr>
          (mock_network (Inl network_timeout) (Inl server_error)))
     = Inl \<lparr>message = ''Network error: No response received from server'',
            code = Some ''network_error'', statusCode = None\<rparr>
   \<and> fst (validateChallenge test_client test_options
          (mock_network (Inl network_timeout) (Inl server_error)))
     = Inl (KeyClaim \<lparr>message = ''Server error'', code = Some ''Server error'',
                      statusCode = Some 500\<rparr>)"
  using C4_error_classification [of "Rejection network_timeout" "''''"
          "mock_network (Inl network_timeout) (Inl server_error)" test_client
          "\<lparr>ttl = None\<rparr>" network_timeout test_options]
    C4_error_classification [of "Rejection network_timeout" "''''"
          "mock_network (Inl network_timeout) (Inl server_error)" test_client
          "\<lparr>ttl = None\<rparr>" server_error test_options]
  by (simp add: mock_network_def three_tiers_def network_timeout_def server_error_def
        http_failure_def has_valid_def rejected_data_def)

text \<open>
  A truthy error body that is not an object is outside the three tiers: the \<open>in\<close> test
  of \<open>validateChallenge\<close> throws before \<open>handleError\<close> is reached.
\<close>

lemma validateChallenge_non_object_body:
  assumes "serve_validate net (calls net) (validate_request this options) = Inl x"
    and "response x = Some r" and "data r = Some (TextData s)" and "s \<noteq> []"
  shows "fst (validateChallenge this options net) = Inl (TypeError (in_operator_message net x))"
  using assms by (simp add: validateChallenge_eq has_valid_def rejected_data_def)

lemma validateChallenge_bad_gateway:
  "fst (validateChallenge test_client test_options
          (mock_network (Inr test_challenge) (Inl bad_gateway)))
     = Inl (TypeError ''Cannot use the in operator on a body that is no object'')"
  by (simp add: validateChallenge_eq has_valid_def rejected_data_def mock_network_def
        bad_gateway_def)

subsection \<open>A rejected validation that carries an outcome\<close>

text \<open>
  Claim C3, as amended. When the validate-challenge call fails at the HTTP level and the
  error body has a \<open>valid\<close> field, \<open>validateChallenge\<close> does not throw: it returns
  the outcome with \<open>valid\<close> false and, as \<open>error\<close>, the body's error string when that
  is present and not empty, the text "Validation failed" otherwise.
\<close>

theorem C3_rejection_with_valid_field:
  assumes "serve_validate net (calls net) (validate_request this options) = Inl x"
    and "response x = Some r" and "data r = Some (ObjectData p)" and "p_valid p = Some v"
  shows "fst (validateChallenge this options net)
           = Inr \<lparr>valid = False, signature = None, quota = None,
                  error = Some (case p_error p of
                                  None \<Rightarrow> ''Validation failed''
                                | Some s \<Rightarrow> if s = [] then ''Validation failed'' else s)\<rparr>"
  using assms
  by (simp add: validateChallenge_eq has_valid_def rejected_data_def split: option.splits)

text \<open>
  The claim as stated returns the body's error string whenever it is present. The body
  \<open>{valid: false, error: ""}\<close> has one, the empty string, and the outcome carries
  "Validation failed".
\<close>

theorem C3_rejection_with_valid_field_counterexample:
  "p_error empty_error_body = Some ''''
   \<and> p_valid empty_error_body = Some False
   \<and> fst (validateChallenge test_client test_options
            (mock_network (Inr test_challenge) (Inl (http_failure 400 empty_error_body))))
       = Inr \<lparr>valid = False, signature = None, quota = None,
              error = Some ''Validation failed''\<rparr>
   \<and> fst (validateChallenge test_client test_options
            (mock_network (Inr test_challenge) (Inl (http_failure 400 empty_error_body))))
       \<noteq> Inr \<lparr>valid = False, signature = None, quota = None,
              error = p_error empty_error_body\<rparr>"
  by (simp add: validateChallenge_eq mock_network_def http_failure_def empty_error_body_def
        has_valid_def rejected_data_def)

theorem C3_rejection_with_valid_field_witness:
  "fst (validateChallenge test_client test_options
          (mock_network (Inr test_challenge) (Inl (http_failure 400 invalid_response))))
     = Inr \<lparr>valid = False, signature = None, quota = None,
            error = Some ''Invalid response''\<rparr>"
  using C3_rejection_with_valid_field [of
          "mock_network (Inr test_challenge) (Inl (http_failure 400 invalid_response))"
          test_client test_options "http_failure 400 invalid_response"
          "\<lparr>status = 400, data = Some (ObjectData invalid_response)\<rparr>" invalid_response False]
  by (simp add: mock_network_def http_failure_def invalid_response_def)

subsection \<open>The composite validate\<close>

text \<open>
  Claim C2. When the create call and the validate call both succeed at the HTTP level,
  \<open>validate("hmac", 30)\<close> issues exactly two remote calls, the creation first and the
  validation second; the response it sends is \<open>generateResponse(challenge, "hmac")\<close>
  on the challenge the first call returned; and it returns the payload of the second
  call unchanged.
\<close>

theorem C2_validate_hmac_flow:
  assumes "serve_create net (calls net) (create_request this (Num 30)) = Inr c"
    and "generateResponse stringify this (challenge c) (Some ''hmac'') Undefined = Inr r"
    and "serve_validate net (calls net @ [create_request this (Num 30)])
           (validate_request this
              \<lparr>o_challenge = challenge c, o_response = r, decryptedChallenge = None\<rparr>) = Inr v"
  shows "validate stringify this (Some ''hmac'') (Some (Num 30)) Undefined net
           = (Inr v,
              net\<lparr>calls := calls net @
                 [create_request this (Num 30),
                  validate_request this
                    \<lparr>o_challenge = challenge c, o_response = r,
                     decryptedChallenge = None\<rparr>]\<rparr>)
       \<and> length (calls (snd (validate stringify this (Some ''hmac'') (Some (Num 30))
                               Undefined net)))
           = length (calls net) + 2"
  using assms
  by (simp add: validate_eq validate_try_def createChallenge_eq validateChallenge_eq
        method_default_def ttl_default_def)

theorem C2_validate_hmac_flow_witness:
  "validate stringify_stub test_client (Some ''hmac'') (Some (Num 30)) Undefined
       (mock_network (Inr test_challenge) (Inr test_outcome))
     = (Inr test_outcome,
        (mock_network (Inr test_challenge) (Inr test_outcome))
          \<lparr>calls :=
             [create_request test_client (Num 30),
              validate_request test_client
                \<lparr>o_challenge = ''test-challenge-123'',
                 o_response = hex (hmac_sha256 (utf8 ''test-secret-key'')
                                     (utf8 ''test-challenge-123'')),
                 decryptedChallenge = None\<rparr>]\<rparr>)"
  using C2_validate_hmac_flow [of
          "mock_network (Inr test_challenge) (Inr test_outcome)" test_client test_challenge
          stringify_stub
          "hex (hmac_sha256 (utf8 ''test-secret-key'') (utf8 ''test-challenge-123''))"
          test_outcome]
  by (simp add: mock_network_def generateResponse_hmac test_challenge_def test_client_def)

subsection \<open>Failures of the composite validate\<close>

text \<open>
  Every error \<open>validate\<close> throws has been through the third tier of \<open>handleError\<close>,
  whatever the failing step had made of it.
\<close>

lemma validate_failure_unclassified:
  assumes "fst (validate stringify this m t cd net) = Inl e"
  shows "code e = Some ''unknown_error'' \<and> statusCode e = None"
  using assms
  by (auto simp: validate_eq handleError_Raised split: prod.splits sum.splits)

text \<open>
  Claim C1. In \<open>validate(method, ttl, customData)\<close> a failure of any of the three
  steps should reach the caller as the error that step produces on its own, a classified
  error keeping its message, code and status code and a local generation error coming
  out unchanged. The code does not do that. When the create call is answered with status
  500 and the body \<open>{error: "Server error"}\<close>, \<open>createChallenge\<close> throws the error
  with message "Server error", code "Server error" and status code 500, and
  \<open>validate\<close> throws one with the same message, code \<open>unknown_error\<close> and no status
  code. When \<open>generateResponse\<close> throws the missing-custom-data error, which has no
  code, \<open>validate\<close> throws it with code \<open>unknown_error\<close>.
\<close>

theorem C1_validate_reclassifies_step_errors:
  "fst (createChallenge test_client \<lparr>ttl = Some (Num 30)\<rparr>
          (mock_network (Inl server_error) (Inr test_outcome)))
     = Inl \<lparr>message = ''Server error'', code = Some ''Server error'', statusCode = Some 500\<rparr>
   \<and> fst (validate stringify_stub test_client (Some ''hmac'') (Some (Num 30)) Undefined
          (mock_network (Inl server_error) (Inr test_outcome)))
     = Inl \<lparr>message = ''Server error'', code = Some ''unknown_error'', statusCode = None\<rparr>
   \<and> generateResponse stringify_stub test_client ''test-challenge-123'' (Some ''custom'') Undefined
     = Inl \<lparr>message = ''Custom data is required for custom method'',
            code = None, statusCode = None\<rparr>
   \<and> fst (validate stringify_stub test_client (Some ''custom'') (Some (Num 30)) Undefined
          (mock_network (Inr test_challenge) (Inr test_outcome)))
     = Inl \<lparr>message = ''Custom data is required for custom method'',
            code = Some ''unknown_error'', statusCode = None\<rparr>"
  by (simp add: validate_eq validate_try_def createChallenge_eq mock_network_def
        server_error_def http_failure_def handleError_tiers three_tiers_def
        method_default_def ttl_default_def generateResponse_def new_KeyClaimError_def
        test_challenge_def)

end
